theory Spec2Isabelle
  imports Complex_Main "HOL-Library.Word" "HOL-Library.AList"
begin

unbundle bit_operations_syntax

section \<open>TunableGemm.h: the tunable GEMM operation\<close>

text \<open>
  The development embeds \<^verbatim>\<open>aten/src/ATen/cuda/tunable/TunableGemm.h\<close>: the helpers
  \<^verbatim>\<open>IsZero\<close> and \<^verbatim>\<open>TypeName\<close>, the candidate \<^verbatim>\<open>DefaultGemmOp\<close> and the class
  \<^verbatim>\<open>GemmTunableOp<T, ALayout, BLayout>\<close> with its constructor, \<^verbatim>\<open>PreTuning\<close>,
  \<^verbatim>\<open>PostTuning\<close> and \<^verbatim>\<open>Signature\<close>.

  The braces of the constructor balance only when \<^verbatim>\<open>USE_ROCM\<close> is defined and
  \<^verbatim>\<open>ROCM_VERSION >= 50700\<close> (the \<^verbatim>\<open>#endif\<close> of lines 138 and 161 sit inside the
  \<^verbatim>\<open>if\<close> blocks they close), so that is the configuration embedded here.
\<close>

subsection \<open>Element types and \<^verbatim>\<open>TypeName\<close>\<close>

text \<open>
  The template parameter \<^verbatim>\<open>T\<close>. The six types with a \<^verbatim>\<open>TypeName\<close> specialization are
  constructors of their own; any other type is \<open>T_other\<close>, told apart by its C++ name
  and its \<^verbatim>\<open>sizeof\<close>.
\<close>

datatype elem_type =
    T_float
  | T_double
  | T_BFloat16
  | T_Half
  | T_complex_double
  | T_complex_float
  | T_other string nat

fun supported :: "elem_type \<Rightarrow> bool" where
  "supported (T_other nm sz) = False"
| "supported ty = True"

text \<open>\<^verbatim>\<open>TypeName<T>(T v)\<close>, lines 71 to 104: the primary template and its six specializations.\<close>

fun TypeName :: "elem_type \<Rightarrow> string" where
  "TypeName T_float = ''float''"
| "TypeName T_double = ''double''"
| "TypeName T_BFloat16 = ''BFloat16''"
| "TypeName T_Half = ''Half''"
| "TypeName T_complex_double = ''c10::complex<double>''"
| "TypeName T_complex_float = ''c10::complex<float>''"
| "TypeName (T_other nm sz) = ''unknown''"

text \<open>\<^verbatim>\<open>sizeof(T)\<close> in bytes.\<close>

fun sizeof :: "elem_type \<Rightarrow> nat" where
  "sizeof T_float = 4"
| "sizeof T_double = 8"
| "sizeof T_BFloat16 = 2"
| "sizeof T_Half = 2"
| "sizeof T_complex_double = 16"
| "sizeof T_complex_float = 8"
| "sizeof (T_other nm sz) = sz"

subsection \<open>\<^verbatim>\<open>GemmTunableOp::Signature\<close>\<close>

text \<open>
  Lines 190 to 192:
  \<^verbatim>\<open>c10::str("GemmTunableOp_", TypeName<T>(T{}), "_", BlasOpToString(ALayout), BlasOpToString(BLayout))\<close>.
  The method has no parameter and reads no member: its value is fixed by the template
  arguments. The enumeration \<^verbatim>\<open>BlasOp\<close> and \<^verbatim>\<open>BlasOpToString\<close> are declared in
  \<^verbatim>\<open>GemmCommon.h\<close>, which is not part of the sources at hand, so the layout type is a type
  parameter \<open>'l\<close> and \<^verbatim>\<open>BlasOpToString\<close> the first argument. \<^verbatim>\<open>c10::str\<close> of strings is
  their concatenation.
\<close>

definition Signature :: "('l \<Rightarrow> string) \<Rightarrow> elem_type \<Rightarrow> 'l \<Rightarrow> 'l \<Rightarrow> string" where
  "Signature BlasOpToString ty ALayout BLayout =
     ''GemmTunableOp_'' @ TypeName ty @ ''_'' @ BlasOpToString ALayout @ BlasOpToString BLayout"

text \<open>
  The signature a \<^verbatim>\<open>GemmTunableOp<T, ALayout, BLayout>\<close> reports while it handles a call
  with the parameter set \<open>params\<close>: \<^verbatim>\<open>Signature()\<close> is invoked without an argument, so
  no field of \<open>params\<close> is read.
\<close>

definition Signature_for_call ::
  "('l \<Rightarrow> string) \<Rightarrow> elem_type \<Rightarrow> 'l \<Rightarrow> 'l \<Rightarrow> 'p \<Rightarrow> string" where
  "Signature_for_call BlasOpToString ty ALayout BLayout params =
     Signature BlasOpToString ty ALayout BLayout"

subsection \<open>Scalars and \<^verbatim>\<open>IsZero\<close>\<close>

text \<open>
  A floating-point datum is its bit pattern. \<open>ieee_value ew fw bits\<close> reads a pattern with
  \<open>ew\<close> exponent bits and \<open>fw\<close> fraction bits the IEEE 754 way: binary32 is \<open>8, 23\<close>,
  binary64 is \<open>11, 52\<close>, binary16 (\<^verbatim>\<open>Half\<close>) is \<open>5, 10\<close> and bfloat16 is \<open>8, 7\<close>.
\<close>

datatype fp_value = Finite real | Infinity bool | NaN

definition ieee_value :: "nat \<Rightarrow> nat \<Rightarrow> nat \<Rightarrow> fp_value" where
  "ieee_value ew fw bits =
     (let frac = bits mod 2 ^ fw;
          ex = (bits div 2 ^ fw) mod 2 ^ ew;
          neg = ((bits div 2 ^ (fw + ew)) mod 2 = 1);
          sgn = (if neg then - 1 else 1);
          bias = 2 ^ (ew - 1) - 1
      in if ex = 2 ^ ew - 1 then (if frac = 0 then Infinity neg else NaN)
         else if ex = 0 then Finite (sgn * (real frac / 2 ^ fw) * 2 powi (1 - int bias))
         else Finite (sgn * (1 + real frac / 2 ^ fw) * 2 powi (int ex - int bias)))"

text \<open>
  The C++ comparison \<^verbatim>\<open>v == 0.0f\<close> on a floating-point value: true for both zeros, false
  for every other number, for the infinities and for NaN.
\<close>

definition eq_zero :: "fp_value \<Rightarrow> bool" where
  "eq_zero v = (v = Finite 0)"

text \<open>
  A value of one of the six element types. \<^verbatim>\<open>BFloat16\<close> is a struct around the 16-bit
  field \<^verbatim>\<open>x\<close>, the only member \<^verbatim>\<open>IsZero\<close> reads; a complex number is its real and
  imaginary parts.
\<close>

datatype scalar =
    V_float "32 word"
  | V_double "64 word"
  | V_BFloat16 "16 word"
  | V_Half "16 word"
  | V_complex_double "64 word" "64 word"
  | V_complex_float "32 word" "32 word"

text \<open>
  \<^verbatim>\<open>IsZero\<close>, lines 46 to 69. The primary template (\<^verbatim>\<open>v == 0.0f\<close>) serves \<^verbatim>\<open>float\<close>
  and \<^verbatim>\<open>double\<close>; \<^verbatim>\<open>BFloat16\<close> compares the raw field (\<^verbatim>\<open>v.x == 0\<close>); \<^verbatim>\<open>Half\<close>
  converts to \<^verbatim>\<open>float\<close> first, which keeps the value (\<^verbatim>\<open>float(v) == 0.0f\<close>); a
  \<^verbatim>\<open>c10::complex\<close> equals a real number when its real part does and its imaginary part
  is zero.
\<close>

fun IsZero :: "scalar \<Rightarrow> bool" where
  "IsZero (V_float v) = eq_zero (ieee_value 8 23 (unat v))"
| "IsZero (V_double v) = eq_zero (ieee_value 11 52 (unat v))"
| "IsZero (V_BFloat16 x) = (x = 0)"
| "IsZero (V_Half v) = eq_zero (ieee_value 5 10 (unat v))"
| "IsZero (V_complex_double re im) =
     (eq_zero (ieee_value 11 52 (unat re)) \<and> eq_zero (ieee_value 11 52 (unat im)))"
| "IsZero (V_complex_float re im) =
     (eq_zero (ieee_value 8 23 (unat re)) \<and> eq_zero (ieee_value 8 23 (unat im)))"

text \<open>
  The number a scalar denotes (real and imaginary part; a real scalar has imaginary part
  zero), and what it means for it to be numerically equal to zero.
\<close>

fun number_of :: "scalar \<Rightarrow> fp_value \<times> fp_value" where
  "number_of (V_float v) = (ieee_value 8 23 (unat v), Finite 0)"
| "number_of (V_double v) = (ieee_value 11 52 (unat v), Finite 0)"
| "number_of (V_BFloat16 x) = (ieee_value 8 7 (unat x), Finite 0)"
| "number_of (V_Half v) = (ieee_value 5 10 (unat v), Finite 0)"
| "number_of (V_complex_double re im) = (ieee_value 11 52 (unat re), ieee_value 11 52 (unat im))"
| "number_of (V_complex_float re im) = (ieee_value 8 23 (unat re), ieee_value 8 23 (unat im))"

definition numerically_zero :: "scalar \<Rightarrow> bool" where
  "numerically_zero v = (number_of v = (Finite 0, Finite 0))"

subsection \<open>Parameters, status and the candidate \<^verbatim>\<open>DefaultGemmOp\<close>\<close>

type_synonym addr = nat

text \<open>
  \<^verbatim>\<open>GemmParams<T>\<close> is declared in \<^verbatim>\<open>GemmCommon.h\<close>; its fields are the thirteen that
  \<^verbatim>\<open>DefaultGemmOp\<close> passes on. Dimensions and leading dimensions are integers (64-bit
  signed in the BLAS wrappers), pointers are addresses, with 0 for \<^verbatim>\<open>nullptr\<close>.
\<close>

record GemmParams =
  transa :: char
  transb :: char
  m :: int
  n :: int
  k :: int
  alpha :: scalar
  a :: addr
  lda :: int
  b :: addr
  ldb :: int
  beta :: scalar
  c :: addr
  ldc :: int

text \<open>The two values of \<^verbatim>\<open>TuningStatus\<close> the file uses.\<close>

datatype TuningStatus = OK | FAIL

text \<open>
  A candidate takes the parameters and acts on the device, whose state has the type
  \<open>'dev\<close>. \<^verbatim>\<open>at::cuda::blas::gemm_internal<T>\<close> is a parameter: it receives the thirteen
  arguments in the order of lines 35 to 42.
\<close>

type_synonym 'dev gemm_fn =
  "char \<Rightarrow> char \<Rightarrow> int \<Rightarrow> int \<Rightarrow> int \<Rightarrow> scalar \<Rightarrow> addr \<Rightarrow> int \<Rightarrow> addr \<Rightarrow> int \<Rightarrow> scalar \<Rightarrow> addr \<Rightarrow> int
     \<Rightarrow> 'dev \<Rightarrow> 'dev"

type_synonym 'dev callable = "GemmParams \<Rightarrow> 'dev \<Rightarrow> TuningStatus \<times> 'dev"

definition DefaultGemmOp :: "'dev gemm_fn \<Rightarrow> 'dev callable" where
  "DefaultGemmOp gemm_internal params dev =
     (OK, gemm_internal (transa params) (transb params)
            (m params) (n params) (k params)
            (alpha params)
            (a params) (lda params)
            (b params) (ldb params)
            (beta params)
            (c params) (ldc params) dev)"

subsection \<open>Memory: device buffers and parameter objects\<close>

text \<open>
  \<open>blocks\<close> are the live device allocations (base address and size in bytes), \<open>objs\<close> the
  live \<^verbatim>\<open>GemmParams\<close> objects on the host (address and value), both as association
  lists with the newest entry first. The caller's parameter object and the caller's
  buffers are entries like any other.
\<close>

record heap =
  blocks :: "(addr \<times> nat) list"
  objs :: "(addr \<times> GemmParams) list"

datatype error = ResourceExhaustion | InvalidPointer | ConfigurationError

text \<open>
  \<^verbatim>\<open>c10::cuda::CUDACachingAllocator\<close> and \<^verbatim>\<open>operator new\<close> are not part of the sources at
  hand. Where they place a new block or object is a parameter: \<open>raw_alloc_place h nbytes\<close>
  is the base the allocator picks in the state \<open>h\<close> (\<open>None\<close> when memory is exhausted),
  \<open>new_place h\<close> the address of the next object.
\<close>

record allocators =
  raw_alloc_place :: "heap \<Rightarrow> nat \<Rightarrow> addr option"
  new_place :: "heap \<Rightarrow> addr option"

text \<open>
  Modelled from the spec: \<^verbatim>\<open>raw_alloc\<close> of the caching allocator
  (\<^verbatim>\<open>c10/cuda/CUDACachingAllocator.h\<close>, included by the file but absent) obtains a
  scratch buffer, and an allocation failure is a resource-exhaustion error.
\<close>

definition raw_alloc :: "allocators \<Rightarrow> heap \<Rightarrow> nat \<Rightarrow> error + (addr \<times> heap)" where
  "raw_alloc al h nbytes =
     (case raw_alloc_place al h nbytes of
        None \<Rightarrow> Inl ResourceExhaustion
      | Some base \<Rightarrow> Inr (base, h\<lparr>blocks := (base, nbytes) # blocks h\<rparr>))"

text \<open>
  Modelled from the spec: \<^verbatim>\<open>raw_delete\<close> of the caching allocator (absent; line 185
  names it through \<^verbatim>\<open>c10::hip::HIPCachingAllocator\<close>, the name the same allocator has
  in a ROCm build) releases the buffer at \<open>ptr\<close>. The spec is silent on a pointer that
  is no live block; here it is an error.
\<close>

definition raw_delete :: "heap \<Rightarrow> addr \<Rightarrow> error + heap" where
  "raw_delete h ptr =
     (if map_of (blocks h) ptr = None then Inl InvalidPointer
      else Inr (h\<lparr>blocks := AList.delete ptr (blocks h)\<rparr>))"

text \<open>\<^verbatim>\<open>new GemmParams<T>()\<close> followed by the assignment of \<open>init\<close> to the new object.\<close>

definition new_GemmParams :: "allocators \<Rightarrow> heap \<Rightarrow> GemmParams \<Rightarrow> error + (addr \<times> heap)" where
  "new_GemmParams al h init =
     (case new_place al h of
        None \<Rightarrow> Inl ResourceExhaustion
      | Some ptr \<Rightarrow> Inr (ptr, h\<lparr>objs := (ptr, init) # objs h\<rparr>))"

text \<open>\<^verbatim>\<open>delete params\<close>; deleting what is no live object is an error.\<close>

definition delete_GemmParams :: "heap \<Rightarrow> addr \<Rightarrow> error + heap" where
  "delete_GemmParams h ptr =
     (if map_of (objs h) ptr = None then Inl InvalidPointer
      else Inr (h\<lparr>objs := AList.delete ptr (objs h)\<rparr>))"

text \<open>
  What the allocators are relied on for: a new block shares no byte and no base with a
  live block, and a new object is no live object.
\<close>

definition fresh_block :: "heap \<Rightarrow> addr \<Rightarrow> nat \<Rightarrow> bool" where
  "fresh_block h base nbytes \<longleftrightarrow>
     (\<forall>(b, sz) \<in> set (blocks h). b \<noteq> base \<and> (base + nbytes \<le> b \<or> b + sz \<le> base))"

definition sound_allocators :: "allocators \<Rightarrow> bool" where
  "sound_allocators al \<longleftrightarrow>
     (\<forall>h nbytes base. raw_alloc_place al h nbytes = Some base \<longrightarrow> fresh_block h base nbytes) \<and>
     (\<forall>h ptr. new_place al h = Some ptr \<longrightarrow> map_of (objs h) ptr = None)"

subsection \<open>\<^verbatim>\<open>PreTuning\<close> and \<^verbatim>\<open>PostTuning\<close>\<close>

text \<open>
  The argument of \<^verbatim>\<open>raw_alloc\<close> on line 176, \<^verbatim>\<open>proxy->m * proxy->ldc * sizeof(T)\<close>: the
  product of the two integers is converted to \<^verbatim>\<open>size_t\<close> (64 bits, wrapping) when it
  meets \<^verbatim>\<open>sizeof(T)\<close>.
\<close>

definition scratch_bytes :: "elem_type \<Rightarrow> GemmParams \<Rightarrow> nat" where
  "scratch_bytes ty p = nat ((m p * ldc p * int (sizeof ty)) mod 2 ^ 64)"

text \<open>
  \<^verbatim>\<open>PreTuning\<close>, lines 165 to 181. \<open>params\<close> is the pointer the caller passes; the result
  is the pointer returned and the memory afterwards. An exception of an allocation is the
  \<open>Inl\<close> branch (the memory it leaves behind is not followed), and so is a pointer to no
  live object, which C++ leaves undefined. Line 176 reads \<open>m\<close> and \<open>ldc\<close> from the
  proxy, which is a copy of \<open>p\<close> at that point, and then stores the new pointer in its
  field \<open>c\<close>.
\<close>

definition PreTuning :: "allocators \<Rightarrow> elem_type \<Rightarrow> heap \<Rightarrow> addr \<Rightarrow> error + (addr \<times> heap)" where
  "PreTuning al ty h params =
     (case map_of (objs h) params of
        None \<Rightarrow> Inl InvalidPointer
      | Some p \<Rightarrow>
          if \<not> IsZero (beta p) then
            (case new_GemmParams al h p of
               Inl e \<Rightarrow> Inl e
             | Inr (proxy, h1) \<Rightarrow>
                 (case raw_alloc al h1 (scratch_bytes ty p) of
                    Inl e \<Rightarrow> Inl e
                  | Inr (scratch, h2) \<Rightarrow>
                      Inr (proxy,
                           h2\<lparr>objs := AList.update proxy (p\<lparr>c := scratch\<rparr>) (objs h2)\<rparr>)))
          else Inr (params, h))"

text \<open>\<^verbatim>\<open>PostTuning\<close>, lines 183 to 188.\<close>

definition PostTuning :: "heap \<Rightarrow> addr \<Rightarrow> error + heap" where
  "PostTuning h params =
     (case map_of (objs h) params of
        None \<Rightarrow> Inl InvalidPointer
      | Some p \<Rightarrow>
          if \<not> IsZero (beta p) then
            (case raw_delete h (c p) of
               Inl e \<Rightarrow> Inl e
             | Inr h1 \<Rightarrow> delete_GemmParams h1 params)
          else Inr h)"

text \<open>
  The output of the GEMM: \<^verbatim>\<open>DefaultGemmOp\<close> hands \<open>m\<close>, \<open>n\<close>, \<open>c\<close> and \<open>ldc\<close> to
  the BLAS routine, for which \<open>C\<close> is the \<open>m\<close>-by-\<open>n\<close> matrix stored column by column
  with leading dimension \<open>ldc\<close>: element \<open>(i, j)\<close> has index \<open>i + j * ldc\<close> from \<open>c\<close>.
  \<open>holds_output nbytes ty p\<close> says that a buffer of \<open>nbytes\<close> bytes has room for every
  element.
\<close>

definition c_index :: "GemmParams \<Rightarrow> int \<Rightarrow> int \<Rightarrow> int" where
  "c_index p i j = i + j * ldc p"

definition holds_output :: "nat \<Rightarrow> elem_type \<Rightarrow> GemmParams \<Rightarrow> bool" where
  "holds_output nbytes ty p \<longleftrightarrow>
     (\<forall>i \<in> {0 ..< m p}. \<forall>j \<in> {0 ..< n p}.
        (c_index p i j + 1) * int (sizeof ty) \<le> int nbytes)"

text \<open>
  The address of the first byte of element \<open>(i, j)\<close> of that matrix: a run of the GEMM
  on \<open>p\<close> writes the \<open>sizeof(T)\<close> bytes from there on, for every \<open>i < m\<close> and
  \<open>j < n\<close>.
\<close>

definition c_address :: "elem_type \<Rightarrow> GemmParams \<Rightarrow> int \<Rightarrow> int \<Rightarrow> addr" where
  "c_address ty p i j = c p + nat (c_index p i j) * sizeof ty"

subsection \<open>The constructor: candidates and version validators\<close>

text \<open>
  Modelled from the spec: \<^verbatim>\<open>TunableOp::RegisterOp\<close> (\<^verbatim>\<open>TunableOp.h\<close>, absent) inserts
  a named candidate; the candidates are kept in registration order, and a duplicate name is
  a fatal configuration error.
\<close>

type_synonym 'f registry = "(string \<times> 'f) list"

definition RegisterOp :: "'f registry \<Rightarrow> string \<Rightarrow> 'f \<Rightarrow> error + 'f registry" where
  "RegisterOp reg name op =
     (if name \<in> set (map fst reg) then Inl ConfigurationError else Inr (reg @ [(name, op)]))"

text \<open>The loops of lines 116 to 118 and 146 to 148: one \<^verbatim>\<open>RegisterOp\<close> per pair, in order.\<close>

fun RegisterOps :: "'f registry \<Rightarrow> (string \<times> 'f) list \<Rightarrow> error + 'f registry" where
  "RegisterOps reg [] = Inr reg"
| "RegisterOps reg ((name, op) # rest) =
     (case RegisterOp reg name op of
        Inl e \<Rightarrow> Inl e
      | Inr reg' \<Rightarrow> RegisterOps reg' rest)"

text \<open>
  A validator entry: the value producer and the compatibility predicate.
  \<^verbatim>\<open>GetAllValidators()\<close> is the map from key to entry.
\<close>

type_synonym validator = "(unit \<Rightarrow> string) \<times> (string \<Rightarrow> TuningStatus)"

type_synonym validators = "string \<rightharpoonup> validator"

text \<open>
  Modelled from the spec: \<^verbatim>\<open>TuningResultsValidator::RegisterValidator\<close> (absent): the
  first registration for a key wins, a later one for the same key is ignored.
\<close>

definition RegisterValidator ::
  "validators \<Rightarrow> string \<Rightarrow> (unit \<Rightarrow> string) \<Rightarrow> (string \<Rightarrow> TuningStatus) \<Rightarrow> validators" where
  "RegisterValidator vs key gf vf = (if vs key = None then vs(key \<mapsto> (gf, vf)) else vs)"

text \<open>
  What the constructor takes from outside the file: the macros of the ROCm headers
  (\<^verbatim>\<open>XSTRINGIFY\<close> turns a version macro into the string of its expansion), and the
  candidate lists of the two backends.
\<close>

record ('l, 'dev) rocm =
  ROCM_BUILD_INFO :: string
  ROCBLAS_VERSION_MAJOR :: string
  ROCBLAS_VERSION_MINOR :: string
  ROCBLAS_VERSION_PATCH :: string
  ROCBLAS_VERSION_TWEAK :: string
  HIPBLASLT_VERSION_MAJOR :: string
  HIPBLASLT_VERSION_MINOR :: string
  HIPBLASLT_VERSION_PATCH :: string
  HIPBLASLT_VERSION_TWEAK :: string
  gemm_internal :: "'dev gemm_fn"
  GetRocBlasGemmTypeStringAndOps :: "elem_type \<Rightarrow> (string \<times> 'dev callable) list"
  GetHipBlasLtGemmTypeStringAndOps :: "elem_type \<Rightarrow> 'l \<Rightarrow> 'l \<Rightarrow> (string \<times> 'dev callable) list"

text \<open>The three version strings of lines 121, 129 to 133 and 152 to 156.\<close>

definition rocm_version :: "('l, 'dev) rocm \<Rightarrow> string" where
  "rocm_version env = ROCM_BUILD_INFO env"

definition rocblas_version :: "('l, 'dev) rocm \<Rightarrow> string" where
  "rocblas_version env =
     ROCBLAS_VERSION_MAJOR env @ ''.'' @ ROCBLAS_VERSION_MINOR env @ ''.'' @
     ROCBLAS_VERSION_PATCH env @ ''-'' @ ROCBLAS_VERSION_TWEAK env"

definition hipblaslt_version :: "('l, 'dev) rocm \<Rightarrow> string" where
  "hipblaslt_version env =
     HIPBLASLT_VERSION_MAJOR env @ ''.'' @ HIPBLASLT_VERSION_MINOR env @ ''.'' @
     HIPBLASLT_VERSION_PATCH env @ ''-'' @ HIPBLASLT_VERSION_TWEAK env"

text \<open>
  The pair of lambdas every registration passes: \<^verbatim>\<open>[v]() { return v; }\<close> and
  \<^verbatim>\<open>[v](auto&& k) { return v == k ? OK : FAIL; }\<close>, with \<open>v\<close> captured by value.
\<close>

definition version_producer :: "string \<Rightarrow> unit \<Rightarrow> string" where
  "version_producer v = (\<lambda>u. v)"

definition version_predicate :: "string \<Rightarrow> string \<Rightarrow> TuningStatus" where
  "version_predicate v = (\<lambda>k. if v = k then OK else FAIL)"

text \<open>
  One guarded registration, as on lines 120 to 126: \<open>snapshot\<close> is the copy of the
  validator map taken on line 113, \<open>vs\<close> the map of the tuning context at this point.
\<close>

definition register_version :: "validators \<Rightarrow> validators \<Rightarrow> string \<Rightarrow> string \<Rightarrow> validators" where
  "register_version snapshot vs key v =
     (if snapshot key = None
      then RegisterValidator vs key (version_producer v) (version_predicate v)
      else vs)"

text \<open>
  The constructor, lines 110 to 163. It takes the validator map of the tuning context and
  returns the candidates of the new operation and the validator map afterwards.
\<close>

definition GemmTunableOp ::
  "('l, 'dev) rocm \<Rightarrow> elem_type \<Rightarrow> 'l \<Rightarrow> 'l \<Rightarrow> validators
     \<Rightarrow> error + ('dev callable registry \<times> validators)" where
  "GemmTunableOp env ty ALayout BLayout vs0 =
     (case RegisterOp [] ''Default'' (DefaultGemmOp (gemm_internal env)) of
        Inl e \<Rightarrow> Inl e
      | Inr ops1 \<Rightarrow>
          let snapshot = vs0 in
          (case RegisterOps ops1 (GetRocBlasGemmTypeStringAndOps env ty) of
             Inl e \<Rightarrow> Inl e
           | Inr ops2 \<Rightarrow>
               let vs1 = register_version snapshot vs0 ''ROCM_VERSION'' (rocm_version env);
                   vs2 = register_version snapshot vs1 ''ROCBLAS_VERSION'' (rocblas_version env)
               in (case (if ty \<noteq> T_complex_float \<and> ty \<noteq> T_complex_double
                         then RegisterOps ops2 (GetHipBlasLtGemmTypeStringAndOps env ty ALayout BLayout)
                         else Inr ops2) of
                     Inl e \<Rightarrow> Inl e
                   | Inr ops3 \<Rightarrow>
                       Inr (ops3,
                            register_version snapshot vs2 ''HIPBLASLT_VERSION''
                              (hipblaslt_version env)))))"

text \<open>
  Two names for what the constructor leaves behind. \<open>backend_ops\<close> lists the candidates
  of the backends in the order the two loops visit them (the hipBLASLt loop is compiled
  out for the complex types), \<open>validators_after\<close> is the validator map after the three
  guarded registrations.
\<close>

definition backend_ops ::
  "('l, 'dev) rocm \<Rightarrow> elem_type \<Rightarrow> 'l \<Rightarrow> 'l \<Rightarrow> (string \<times> 'dev callable) list" where
  "backend_ops env ty ALayout BLayout =
     GetRocBlasGemmTypeStringAndOps env ty @
     (if ty \<noteq> T_complex_float \<and> ty \<noteq> T_complex_double
      then GetHipBlasLtGemmTypeStringAndOps env ty ALayout BLayout else [])"

definition validators_after :: "('l, 'dev) rocm \<Rightarrow> validators \<Rightarrow> validators" where
  "validators_after env vs0 =
     register_version vs0
       (register_version vs0
          (register_version vs0 vs0 ''ROCM_VERSION'' (rocm_version env))
          ''ROCBLAS_VERSION'' (rocblas_version env))
       ''HIPBLASLT_VERSION'' (hipblaslt_version env)"

subsection \<open>Concrete inputs\<close>

text \<open>
  Inputs for the closed statements below. Layouts are told apart by a flag (transposed or
  not) that prints as \<open>T\<close> or \<open>N\<close>; the parameter set is a \<open>1\<close>-by-\<open>2\<close> single
  precision product with \<open>alpha = beta = 1.0f\<close>.
\<close>

definition sample_BlasOpToString :: "bool \<Rightarrow> string" where
  "sample_BlasOpToString t = (if t then ''T'' else ''N'')"

definition sample_params :: GemmParams where
  "sample_params =
     \<lparr>transa = CHR ''n'', transb = CHR ''n'', m = 1, n = 2, k = 1,
      alpha = V_float 0x3F800000, a = 256, lda = 1, b = 512, ldb = 1,
      beta = V_float 0x3F800000, c = 1024, ldc = 1\<rparr>"

text \<open>
  A memory with the caller's parameter object at address \<open>16\<close> and its three buffers, and
  allocators with one place each: a device block at \<open>4096\<close> and an object at \<open>32\<close>,
  handed out when free.
\<close>

definition sample_heap :: heap where
  "sample_heap = \<lparr>blocks = [(256, 4), (512, 8), (1024, 8)], objs = [(16, sample_params)]\<rparr>"

definition sample_allocators :: allocators where
  "sample_allocators =
     \<lparr>raw_alloc_place = (\<lambda>h nbytes. if fresh_block h 4096 nbytes then Some 4096 else None),
      new_place = (\<lambda>h. if map_of (objs h) 32 = None then Some 32 else None)\<rparr>"

text \<open>
  The same call with the caller's output buffer at \<open>4100\<close>, next to the place the
  allocator has free; and a half-precision call (\<^verbatim>\<open>BFloat16\<close>, a \<open>1\<close>-by-\<open>1\<close>
  product) whose \<open>beta\<close> is negative zero.
\<close>

definition sample_params_adjacent :: GemmParams where
  "sample_params_adjacent = sample_params\<lparr>c := 4100\<rparr>"

definition sample_heap_adjacent :: heap where
  "sample_heap_adjacent =
     \<lparr>blocks = [(256, 4), (512, 8), (4100, 8)], objs = [(16, sample_params_adjacent)]\<rparr>"



text \<open>
  A ROCm build with one candidate per backend, whose \<^verbatim>\<open>gemm_internal\<close> logs the output
  pointer it is given, and a validator map in which \<open>ROCM_VERSION\<close> is registered already.
\<close>

definition sample_rocm :: "(bool, addr list) rocm" where
  "sample_rocm =
     \<lparr>ROCM_BUILD_INFO = ''6.0.0.0-91-08ab0e3'',
      ROCBLAS_VERSION_MAJOR = ''4'', ROCBLAS_VERSION_MINOR = ''0'',
      ROCBLAS_VERSION_PATCH = ''0'', ROCBLAS_VERSION_TWEAK = ''88df9726'',
      HIPBLASLT_VERSION_MAJOR = ''0'', HIPBLASLT_VERSION_MINOR = ''6'',
      HIPBLASLT_VERSION_PATCH = ''0'', HIPBLASLT_VERSION_TWEAK = ''6ab220ce'',
      gemm_internal = (\<lambda>ta tb mm nn kk al pa la pb lb be pc lc dev. pc # dev),
      GetRocBlasGemmTypeStringAndOps = (\<lambda>ty. [(''Gemm_Rocblas_1'', \<lambda>p dev. (OK, c p # dev))]),
      GetHipBlasLtGemmTypeStringAndOps =
        (\<lambda>ty al bl. [(''Gemm_Hipblaslt_'' @ sample_BlasOpToString al @ sample_BlasOpToString bl @ ''_1'',
                       \<lambda>p dev. (FAIL, dev))])\<rparr>"

definition sample_validators :: validators where
  "sample_validators =
     [''ROCM_VERSION'' \<mapsto> (version_producer ''5.7.1'', version_predicate ''5.7.1'')]"

section \<open>Properties\<close>

subsection \<open>The signature\<close>

lemma TypeName_prefix_inj:
  assumes "supported ty1" and "supported ty2"
    and "TypeName ty1 @ ''_'' @ xs = TypeName ty2 @ ''_'' @ ys"
  shows "ty1 = ty2"
  using assms by (cases ty1; cases ty2; simp)

text \<open>
  C1, as stated: two parameter sets that differ in one dimension get distinct
  \<^verbatim>\<open>Signature()\<close> strings. It fails: \<^verbatim>\<open>Signature()\<close> reads no parameter, and the two
  parameter sets below, which differ in \<open>m\<close>, get the same string.
\<close>

theorem Signature_same_for_different_m:
  "m sample_params \<noteq> m (sample_params\<lparr>m := 2\<rparr>) \<and>
   Signature_for_call sample_BlasOpToString T_float False False sample_params =
   Signature_for_call sample_BlasOpToString T_float False False (sample_params\<lparr>m := 2\<rparr>)"
  by (simp add: sample_params_def Signature_for_call_def)

text \<open>
  C1, amended: \<^verbatim>\<open>Signature()\<close> is stable and discriminates the element type and the two
  layout flags, and nothing else. One instantiation reports the same string for every
  parameter set; two instantiations at supported element types report the same string
  exactly when element type and both layouts agree, provided \<^verbatim>\<open>BlasOpToString\<close> is
  injective and prints every layout with the same number of characters.
\<close>

theorem Signature_discriminates_type_and_layouts:
  assumes "inj bts" and "\<forall>x y. length (bts x) = length (bts y)"
    and "supported ty1" and "supported ty2"
  shows "Signature_for_call bts ty1 A1 B1 p = Signature_for_call bts ty1 A1 B1 q \<and>
         (Signature bts ty1 A1 B1 = Signature bts ty2 A2 B2 \<longleftrightarrow> ty1 = ty2 \<and> A1 = A2 \<and> B1 = B2)"
proof -
  have "ty1 = ty2 \<and> A1 = A2 \<and> B1 = B2"
    if eq: "Signature bts ty1 A1 B1 = Signature bts ty2 A2 B2"
  proof -
    from eq have e: "TypeName ty1 @ ''_'' @ (bts A1 @ bts B1) = TypeName ty2 @ ''_'' @ (bts A2 @ bts B2)"
      by (simp add: Signature_def)
    then have t: "ty1 = ty2" using assms(3,4) by (rule TypeName_prefix_inj[rotated 2])
    with e have "bts A1 @ bts B1 = bts A2 @ bts B2" by simp
    moreover have "length (bts A1) = length (bts A2)" using assms(2) by blast
    ultimately have "bts A1 = bts A2 \<and> bts B1 = bts B2" by simp
    then have "A1 = A2 \<and> B1 = B2" using assms(1) by (simp add: inj_eq)
    with t show ?thesis by simp
  qed
  then show ?thesis by (auto simp: Signature_for_call_def)
qed

theorem Signature_discriminates_type_and_layouts_witness:
  "Signature_for_call sample_BlasOpToString T_float False True sample_params =
   Signature_for_call sample_BlasOpToString T_float False True (sample_params\<lparr>n := 7\<rparr>) \<and>
   Signature sample_BlasOpToString T_float False True \<noteq>
   Signature sample_BlasOpToString T_Half False True \<and>
   Signature sample_BlasOpToString T_float False True \<noteq>
   Signature sample_BlasOpToString T_float True True"
proof -
  have i: "inj sample_BlasOpToString"
    by (auto simp: inj_def sample_BlasOpToString_def)
  have l: "\<forall>x y. length (sample_BlasOpToString x) = length (sample_BlasOpToString y)"
    by (simp add: sample_BlasOpToString_def)
  show ?thesis
    using Signature_discriminates_type_and_layouts [OF i l, of T_float T_Half False True
        sample_params "sample_params\<lparr>n := 7\<rparr>" False True]
      Signature_discriminates_type_and_layouts [OF i l, of T_float T_float False True
        sample_params "sample_params\<lparr>n := 7\<rparr>" True True]
    by simp
qed

text \<open>
  C10: an element type without a \<^verbatim>\<open>TypeName\<close> specialization is named \<open>unknown\<close>, so
  two instantiations at such types with the same layouts report the same signature.
\<close>

theorem TypeName_unknown_Signature_equal:
  assumes "ty \<notin> {T_float, T_double, T_BFloat16, T_Half, T_complex_float, T_complex_double}"
    and "ty' \<notin> {T_float, T_double, T_BFloat16, T_Half, T_complex_float, T_complex_double}"
  shows "TypeName ty = ''unknown'' \<and> Signature bts ty AL BL = Signature bts ty' AL BL"
proof -
  have u: "TypeName t = ''unknown''"
    if "t \<notin> {T_float, T_double, T_BFloat16, T_Half, T_complex_float, T_complex_double}" for t
    using that by (cases t) simp_all
  show ?thesis
    using u [OF assms(1)] u [OF assms(2)] by (simp add: Signature_def)
qed

theorem TypeName_unknown_Signature_equal_witness:
  "T_other ''int'' 4 \<noteq> T_other ''long'' 8 \<and>
   TypeName (T_other ''int'' 4) = ''unknown'' \<and>
   Signature sample_BlasOpToString (T_other ''int'' 4) False True =
   Signature sample_BlasOpToString (T_other ''long'' 8) False True"
  using TypeName_unknown_Signature_equal
    [of "T_other ''int'' 4" "T_other ''long'' 8" sample_BlasOpToString False True]
  by simp

subsection \<open>\<^verbatim>\<open>IsZero\<close>\<close>

text \<open>
  The reading of the bit patterns on a few values, and the patterns that denote zero: those
  whose bits below the sign bit are all clear.
\<close>

lemma ieee_value_examples:
  "ieee_value 8 23 (unat (0x3F800000 :: 32 word)) = Finite 1"
  "ieee_value 8 23 (unat (0xC0000000 :: 32 word)) = Finite (- 2)"
  "ieee_value 8 23 (unat (0x80000000 :: 32 word)) = Finite 0"
  "ieee_value 11 52 (unat (0x3FF8000000000000 :: 64 word)) = Finite (3 / 2)"
  "ieee_value 5 10 (unat (0x3C00 :: 16 word)) = Finite 1"
  "ieee_value 5 10 (unat (0x8000 :: 16 word)) = Finite 0"
  "ieee_value 8 7 (unat (0x3F80 :: 16 word)) = Finite 1"
  "ieee_value 8 7 (unat (0x8000 :: 16 word)) = Finite 0"
  "ieee_value 8 7 (unat (0x7F80 :: 16 word)) = Infinity False"
  "ieee_value 8 7 (unat (0x7FC0 :: 16 word)) = NaN"
  by (simp_all add: ieee_value_def)

lemma ieee_value_zero_iff:
  assumes "0 < ew"
  shows "ieee_value ew fw bits = Finite 0 \<longleftrightarrow> bits mod 2 ^ (fw + ew) = 0"
proof -
  define frac where "frac = bits mod 2 ^ fw"
  define ex where "ex = (bits div 2 ^ fw) mod 2 ^ ew"
  define sgn :: real where "sgn = (if (bits div 2 ^ (fw + ew)) mod 2 = 1 then - 1 else 1)"
  define bias :: nat where "bias = 2 ^ (ew - 1) - 1"
  have v: "ieee_value ew fw bits =
      (if ex = 2 ^ ew - 1
       then (if frac = 0 then Infinity ((bits div 2 ^ (fw + ew)) mod 2 = 1) else NaN)
       else if ex = 0 then Finite (sgn * (real frac / 2 ^ fw) * 2 powi (1 - int bias))
       else Finite (sgn * (1 + real frac / 2 ^ fw) * 2 powi (int ex - int bias)))"
    unfolding ieee_value_def Let_def frac_def ex_def sgn_def bias_def ..
  have split: "bits mod 2 ^ (fw + ew) = 2 ^ fw * ex + frac"
    unfolding frac_def ex_def power_add by (rule mod_mult2_eq)
  have z: "bits mod 2 ^ (fw + ew) = 0 \<longleftrightarrow> ex = 0 \<and> frac = 0"
    unfolding split by simp
  have "(2::nat) ^ 1 \<le> 2 ^ ew" using assms by (intro power_increasing) simp_all
  then have top: "(2::nat) ^ ew - 1 \<noteq> 0" by simp
  have s0: "sgn \<noteq> 0" by (simp add: sgn_def)
  show ?thesis
  proof (cases "ex = 2 ^ ew - 1")
    case True
    with top have "ex \<noteq> 0" by simp
    with True show ?thesis unfolding v z by simp
  next
    case ne: False
    show ?thesis
    proof (cases "ex = 0")
      case True
      with ne s0 show ?thesis unfolding v z by simp
    next
      case False
      have "0 < 1 + real frac / 2 ^ fw"
        by (simp add: add_pos_nonneg)
      then have "1 + real frac / 2 ^ fw \<noteq> 0" by simp
      with False ne s0 show ?thesis unfolding v z by simp
    qed
  qed
qed

text \<open>
  On every type but \<^verbatim>\<open>BFloat16\<close>, \<^verbatim>\<open>IsZero\<close> is numerical equality to zero. On
  \<^verbatim>\<open>BFloat16\<close> it holds of positive zero only, while negative zero is a zero too.
\<close>

lemma word16_low15_zero:
  fixes x :: "16 word"
  shows "unat x mod 2 ^ 15 = 0 \<longleftrightarrow> x = 0 \<or> x = 0x8000"
proof
  assume h: "unat x mod 2 ^ 15 = 0"
  have "unat x < 2 ^ 16" using unsigned_less [of x, where ?'a = nat] by simp
  then have lt: "unat x < 65536" by simp
  from h have "32768 dvd unat x" by (simp add: mod_eq_0_iff_dvd)
  then obtain q where q: "unat x = 32768 * q" by (rule dvdE)
  with lt have "q < 2" by simp
  then have "q = 0 \<or> q = 1" by auto
  with q have "unat x = 0 \<or> unat x = 32768" by auto
  then show "x = 0 \<or> x = 0x8000"
  proof
    assume "unat x = 0" then show ?thesis by (simp add: unat_0_iff)
  next
    assume "unat x = 32768"
    then have "unat x = unat (0x8000 :: 16 word)" by simp
    then have "x = 0x8000" by (simp only: word_unat_eq_iff [symmetric])
    then show ?thesis by (rule disjI2)
  qed
next
  assume "x = 0 \<or> x = 0x8000"
  then show "unat x mod 2 ^ 15 = 0" by auto
qed

lemma IsZero_BFloat16_iff:
  "IsZero (V_BFloat16 x) \<longleftrightarrow> x = 0"
  "numerically_zero (V_BFloat16 x) \<longleftrightarrow> x = 0 \<or> x = 0x8000"
proof -
  show "IsZero (V_BFloat16 x) \<longleftrightarrow> x = 0" by simp
  have "ieee_value 8 7 (unat x) = Finite 0 \<longleftrightarrow> unat x mod 2 ^ (7 + 8) = 0"
    by (rule ieee_value_zero_iff) simp
  also have "\<dots> \<longleftrightarrow> x = 0 \<or> x = 0x8000"
    using word16_low15_zero [of x] by simp
  finally show "numerically_zero (V_BFloat16 x) \<longleftrightarrow> x = 0 \<or> x = 0x8000"
    by (simp add: numerically_zero_def)
qed


lemma IsZero_numerically_zero:
  "(\<forall>x. v \<noteq> V_BFloat16 x) \<Longrightarrow> IsZero v = numerically_zero v"
  by (cases v) (auto simp: numerically_zero_def eq_zero_def)

text \<open>
  Whatever \<^verbatim>\<open>IsZero\<close> holds of is numerically zero, so a coefficient that differs from
  zero numerically is never taken for zero.
\<close>

lemma IsZero_imp_numerically_zero: "IsZero v \<Longrightarrow> numerically_zero v"
proof (cases "\<exists>x. v = V_BFloat16 x")
  case True
  then obtain x where "v = V_BFloat16 x" ..
  moreover assume "IsZero v"
  ultimately show ?thesis by (simp add: IsZero_BFloat16_iff)
next
  case False
  moreover assume "IsZero v"
  ultimately show ?thesis by (simp add: IsZero_numerically_zero)
qed

text \<open>
  C6 says that \<^verbatim>\<open>IsZero\<close> holds exactly of the values numerically equal to zero,
  negative zero included. The \<^verbatim>\<open>BFloat16\<close> specialization compares the raw bits: the
  pattern \<open>0x8000\<close> is negative zero, and \<^verbatim>\<open>IsZero\<close> is false of it.
\<close>

theorem IsZero_BFloat16_negative_zero:
  "numerically_zero (V_BFloat16 0x8000) \<and> \<not> IsZero (V_BFloat16 0x8000)"
  by (simp add: numerically_zero_def ieee_value_def)

subsection \<open>\<^verbatim>\<open>PreTuning\<close> and \<^verbatim>\<open>PostTuning\<close>: the scratch buffer\<close>

lemma fresh_block_not_live:
  "fresh_block h base nbytes \<Longrightarrow> base \<notin> fst ` set (blocks h)"
  by (auto simp: fresh_block_def)

lemma fresh_block_disjoint:
  assumes "fresh_block h base nbytes" and "(blk, sz) \<in> set (blocks h)"
  shows "blk \<noteq> base \<and> (\<forall>x. base \<le> x \<and> x < base + nbytes \<longrightarrow> \<not> (blk \<le> x \<and> x < blk + sz))"
proof -
  from assms have "blk \<noteq> base \<and> (base + nbytes \<le> blk \<or> blk + sz \<le> base)"
    unfolding fresh_block_def by blast
  then show ?thesis by auto
qed

lemma PreTuning_accumulating:
  assumes "map_of (objs h) params = Some p" and "\<not> IsZero (beta p)"
  shows "PreTuning al ty h params =
     (case new_place al h of
        None \<Rightarrow> Inl ResourceExhaustion
      | Some proxy \<Rightarrow>
          (case raw_alloc_place al (h\<lparr>objs := (proxy, p) # objs h\<rparr>) (scratch_bytes ty p) of
             None \<Rightarrow> Inl ResourceExhaustion
           | Some scratch \<Rightarrow>
               Inr (proxy, \<lparr>blocks = (scratch, scratch_bytes ty p) # blocks h,
                            objs = (proxy, p\<lparr>c := scratch\<rparr>) # objs h\<rparr>)))"
proof (cases "new_place al h")
  case None
  then show ?thesis using assms by (simp add: PreTuning_def new_GemmParams_def)
next
  case (Some proxy)
  show ?thesis
  proof (cases "raw_alloc_place al (h\<lparr>objs := (proxy, p) # objs h\<rparr>) (scratch_bytes ty p)")
    case None
    then show ?thesis using assms Some
      by (simp add: PreTuning_def new_GemmParams_def raw_alloc_def)
  next
    case (Some scratch)
    then show ?thesis using assms \<open>new_place al h = Some proxy\<close>
      by (simp add: PreTuning_def new_GemmParams_def raw_alloc_def)
  qed
qed

lemma sound_allocators_sample: "sound_allocators sample_allocators"
  by (simp add: sound_allocators_def sample_allocators_def)

lemma sample_params_at_16: "map_of (objs sample_heap) 16 = Some sample_params"
  by (simp add: sample_heap_def)

lemma sample_beta_nonzero: "\<not> IsZero (beta sample_params)"
  by (simp add: sample_params_def eq_zero_def ieee_value_def)

lemma sample_c_live: "(c sample_params, 8) \<in> set (blocks sample_heap)"
  by (simp add: sample_heap_def sample_params_def)

lemma sample_scratch_bytes: "scratch_bytes T_float sample_params = 4"
  by (simp add: scratch_bytes_def sample_params_def)

lemma sample_fresh: "fresh_block (sample_heap\<lparr>objs := os\<rparr>) 4096 4"
  by (simp add: fresh_block_def sample_heap_def)

lemma sample_PreTuning:
  "PreTuning sample_allocators T_float sample_heap 16 =
     Inr (32, \<lparr>blocks = (4096, 4) # blocks sample_heap,
              objs = (32, sample_params\<lparr>c := 4096\<rparr>) # objs sample_heap\<rparr>)"
proof -
  have np: "new_place sample_allocators sample_heap = Some 32"
    by (simp add: sample_allocators_def sample_heap_def)
  have rp: "raw_alloc_place sample_allocators (sample_heap\<lparr>objs := os\<rparr>) 4 = Some 4096" for os
    by (simp add: sample_allocators_def sample_fresh)
  show ?thesis
    unfolding PreTuning_accumulating [OF sample_params_at_16 sample_beta_nonzero]
    by (simp add: np rp sample_scratch_bytes)
qed

text \<open>
  What \<^verbatim>\<open>PreTuning\<close> returns for an accumulating operation: when \<^verbatim>\<open>IsZero\<close> does not
  hold of \<open>beta\<close>, it either runs out of memory or returns a new parameter object, the
  proxy, that equals the caller's in every field but \<open>c\<close>; the proxy's \<open>c\<close> is a block
  allocated by this call, which was not live before, differs from the caller's \<open>c\<close> and
  shares no byte with the caller's output buffer; the caller's object and the live blocks
  stay as they were, and \<^verbatim>\<open>DefaultGemmOp\<close> run on the proxy passes the new pointer to
  \<^verbatim>\<open>gemm_internal\<close> in the place of \<open>c\<close>. The allocators are assumed sound and the
  caller's output buffer is assumed to be a live block. The bytes spoken of are the
  \<open>m * ldc * sizeof(T)\<close> bytes of the scratch block, not the bytes a candidate writes.
\<close>

lemma PreTuning_proxy_has_fresh_output:
  assumes "sound_allocators al"
    and "map_of (objs h) params = Some p" and "\<not> IsZero (beta p)"
    and "(c p, csz) \<in> set (blocks h)"
  shows "PreTuning al ty h params = Inl ResourceExhaustion \<or>
     (\<exists>proxy scratch.
        PreTuning al ty h params =
          Inr (proxy, \<lparr>blocks = (scratch, scratch_bytes ty p) # blocks h,
                       objs = (proxy, p\<lparr>c := scratch\<rparr>) # objs h\<rparr>) \<and>
        proxy \<noteq> params \<and> map_of (objs h) proxy = None \<and>
        scratch \<noteq> c p \<and> scratch \<notin> fst ` set (blocks h) \<and>
        (\<forall>x. scratch \<le> x \<and> x < scratch + scratch_bytes ty p \<longrightarrow> \<not> (c p \<le> x \<and> x < c p + csz)) \<and>
        (\<forall>g dev. DefaultGemmOp g (p\<lparr>c := scratch\<rparr>) dev =
           (OK, g (transa p) (transb p) (m p) (n p) (k p) (alpha p) (a p) (lda p) (b p) (ldb p)
                  (beta p) scratch (ldc p) dev)))"
proof (cases "new_place al h")
  case None
  then show ?thesis by (simp add: PreTuning_accumulating [OF assms(2,3)])
next
  case (Some proxy)
  note np = this
  have po: "map_of (objs h) proxy = None"
    using assms(1) np by (simp add: sound_allocators_def)
  with assms(2) have pne: "proxy \<noteq> params" by auto
  show ?thesis
  proof (cases "raw_alloc_place al (h\<lparr>objs := (proxy, p) # objs h\<rparr>) (scratch_bytes ty p)")
    case None
    then show ?thesis by (simp add: PreTuning_accumulating [OF assms(2,3)] np)
  next
    case (Some scratch)
    then have "fresh_block (h\<lparr>objs := (proxy, p) # objs h\<rparr>) scratch (scratch_bytes ty p)"
      using assms(1) unfolding sound_allocators_def by blast
    then have fr: "fresh_block h scratch (scratch_bytes ty p)"
      by (simp add: fresh_block_def)
    have eq: "PreTuning al ty h params =
        Inr (proxy, \<lparr>blocks = (scratch, scratch_bytes ty p) # blocks h,
                     objs = (proxy, p\<lparr>c := scratch\<rparr>) # objs h\<rparr>)"
      by (simp add: PreTuning_accumulating [OF assms(2,3)] np Some)
    have dj: "scratch \<noteq> c p \<and>
        (\<forall>x. scratch \<le> x \<and> x < scratch + scratch_bytes ty p \<longrightarrow> \<not> (c p \<le> x \<and> x < c p + csz))"
      using fresh_block_disjoint [OF fr assms(4)] by blast
    have nl: "scratch \<notin> fst ` set (blocks h)" by (rule fresh_block_not_live [OF fr])
    have dg: "\<forall>g dev. DefaultGemmOp g (p\<lparr>c := scratch\<rparr>) dev =
           (OK, g (transa p) (transb p) (m p) (n p) (k p) (alpha p) (a p) (lda p) (b p) (ldb p)
                  (beta p) scratch (ldc p) dev)"
      by (simp add: DefaultGemmOp_def)
    from eq pne po dj nl dg show ?thesis by blast
  qed
qed

lemma PreTuning_proxy_has_fresh_output_sample:
  "PreTuning sample_allocators T_float sample_heap 16 =
     Inr (32, \<lparr>blocks = (4096, 4) # blocks sample_heap,
              objs = (32, sample_params\<lparr>c := 4096\<rparr>) # objs sample_heap\<rparr>) \<and>
   (32::nat) \<noteq> 16 \<and> 4096 \<noteq> c sample_params \<and> 4096 \<notin> fst ` set (blocks sample_heap)"
proof -
  have x: "4096 \<noteq> c sample_params" by (simp add: sample_params_def)
  have y: "4096 \<notin> fst ` set (blocks sample_heap)" by (simp add: sample_heap_def)
  from PreTuning_proxy_has_fresh_output [OF sound_allocators_sample sample_params_at_16 sample_beta_nonzero sample_c_live,
      of T_float] sample_PreTuning x y
  show ?thesis by simp
qed

text \<open>
  The size on line 176 is enough when the matrix has no more columns than rows, and too
  small when it has more (for dimensions within \<^verbatim>\<open>size_t\<close> and \<open>m \<le> ldc\<close>, as BLAS
  requires).
\<close>

lemma holds_output_scratch:
  assumes "0 \<le> m p" and "m p \<le> ldc p" and "n p \<le> m p"
    and "m p * ldc p * int (sizeof ty) < 2 ^ 64"
  shows "holds_output (scratch_bytes ty p) ty p"
proof -
  have l0: "0 \<le> ldc p" using assms(1,2) by simp
  have "0 \<le> m p * ldc p * int (sizeof ty)" using assms(1) l0 by simp
  then have sb: "int (scratch_bytes ty p) = m p * ldc p * int (sizeof ty)"
    using assms(4) by (simp add: scratch_bytes_def)
  have "(c_index p i j + 1) * int (sizeof ty) \<le> m p * ldc p * int (sizeof ty)"
    if "0 \<le> i" "i < m p" "0 \<le> j" "j < n p" for i j
  proof -
    have "j + 1 \<le> m p" using that assms(3) by simp
    then have "(j + 1) * ldc p \<le> m p * ldc p" using l0 by (rule mult_right_mono)
    moreover have "i + 1 \<le> ldc p" using that assms(2) by simp
    ultimately have "c_index p i j + 1 \<le> m p * ldc p"
      by (simp add: c_index_def algebra_simps)
    then show ?thesis by (rule mult_right_mono) simp
  qed
  then show ?thesis unfolding holds_output_def sb by simp
qed

lemma scratch_misses_last_element:
  assumes "0 < m p" and "m p \<le> ldc p" and "m p < n p" and "0 < sizeof ty"
    and "m p * ldc p * int (sizeof ty) < 2 ^ 64"
  shows "\<not> holds_output (scratch_bytes ty p) ty p"
proof
  assume h: "holds_output (scratch_bytes ty p) ty p"
  have l0: "0 \<le> ldc p" using assms(1,2) by simp
  have "0 \<le> m p * ldc p * int (sizeof ty)" using assms(1) l0 by simp
  then have sb: "int (scratch_bytes ty p) = m p * ldc p * int (sizeof ty)"
    using assms(5) by (simp add: scratch_bytes_def)
  have "m p - 1 \<in> {0 ..< m p}" and "n p - 1 \<in> {0 ..< n p}" using assms(1,3) by auto
  with h have le: "(c_index p (m p - 1) (n p - 1) + 1) * int (sizeof ty) \<le> m p * ldc p * int (sizeof ty)"
    unfolding holds_output_def sb by blast
  have "m p \<le> n p - 1" using assms(3) by simp
  then have "m p * ldc p \<le> (n p - 1) * ldc p" using l0 by (rule mult_right_mono)
  then have "m p * ldc p < c_index p (m p - 1) (n p - 1) + 1"
    using assms(1) by (simp add: c_index_def)
  then have "m p * ldc p * int (sizeof ty) < (c_index p (m p - 1) (n p - 1) + 1) * int (sizeof ty)"
    using assms(4) by simp
  with le show False by simp
qed

lemma sample_not_holds_output: "\<not> holds_output 4 T_float (sample_params\<lparr>c := 4096\<rparr>)"
proof
  assume "holds_output 4 T_float (sample_params\<lparr>c := 4096\<rparr>)"
  then have "\<forall>i \<in> {0 ..< 1}. \<forall>j \<in> {0 ..< 2}.
      (c_index (sample_params\<lparr>c := 4096\<rparr>) i j + 1) * int (sizeof T_float) \<le> int 4"
    unfolding holds_output_def by (simp add: sample_params_def)
  then have "(c_index (sample_params\<lparr>c := 4096\<rparr>) 0 1 + 1) * int (sizeof T_float) \<le> int 4"
    by auto
  then show False by (simp add: c_index_def sample_params_def)
qed

text \<open>
  C3 says that the scratch buffer has the size of the real output buffer, so that it
  holds every element of the \<open>m\<close>-by-\<open>n\<close> matrix with leading dimension \<open>ldc\<close>. The
  size passed to \<^verbatim>\<open>raw_alloc\<close> is \<open>m * ldc * sizeof(T)\<close>, where the output extends over
  \<open>ldc * n\<close> elements. For the \<open>1\<close>-by-\<open>2\<close> product of \<open>sample_params\<close> the scratch
  buffer has 4 bytes, one element, and the element \<open>(0, 1)\<close> ends at byte 8, behind the
  end of the buffer.
\<close>

theorem PreTuning_scratch_too_small:
  "PreTuning sample_allocators T_float sample_heap 16 =
     Inr (32, \<lparr>blocks = (4096, 4) # blocks sample_heap,
              objs = (32, sample_params\<lparr>c := 4096\<rparr>) # objs sample_heap\<rparr>) \<and>
   (0::int) < m sample_params \<and> 1 < n sample_params \<and>
   scratch_bytes T_float sample_params = 4 \<and>
   int 4 < (c_index (sample_params\<lparr>c := 4096\<rparr>) 0 1 + 1) * int (sizeof T_float)"
  using sample_PreTuning sample_scratch_bytes by (simp add: c_index_def sample_params_def)

lemma adjacent_PreTuning:
  "PreTuning sample_allocators T_float sample_heap_adjacent 16 =
     Inr (32, \<lparr>blocks = (4096, 4) # blocks sample_heap_adjacent,
               objs = (32, sample_params_adjacent\<lparr>c := 4096\<rparr>) # objs sample_heap_adjacent\<rparr>)"
proof -
  have o: "map_of (objs sample_heap_adjacent) 16 = Some sample_params_adjacent"
    by (simp add: sample_heap_adjacent_def)
  have nz: "\<not> IsZero (beta sample_params_adjacent)"
    by (simp add: sample_params_adjacent_def sample_beta_nonzero)
  have sb: "scratch_bytes T_float sample_params_adjacent = 4"
    by (simp add: scratch_bytes_def sample_params_adjacent_def sample_params_def)
  have np: "new_place sample_allocators sample_heap_adjacent = Some 32"
    by (simp add: sample_allocators_def sample_heap_adjacent_def)
  have fr: "fresh_block (sample_heap_adjacent\<lparr>objs := os\<rparr>) 4096 4" for os
    by (simp add: fresh_block_def sample_heap_adjacent_def)
  have rp: "raw_alloc_place sample_allocators (sample_heap_adjacent\<lparr>objs := os\<rparr>) 4 = Some 4096"
    for os
    by (simp add: sample_allocators_def fr)
  show ?thesis
    unfolding PreTuning_accumulating [OF o nz] by (simp add: np rp sb)
qed

text \<open>
  C2 says that, the proxy's \<open>c\<close> being a private scratch buffer, a candidate run on the
  proxy never writes to the caller's output. The proxy is as the claim says, but the
  buffer behind it is as short as shown above, and a candidate writes every element of the
  \<open>m\<close>-by-\<open>n\<close> output from the proxy's \<open>c\<close> on. Here the caller's output buffer is the
  live block at \<open>4100\<close> and the allocator hands out the free four bytes at \<open>4096\<close> in
  front of it: \<^verbatim>\<open>PreTuning\<close> returns the proxy with \<open>c = 4096\<close>, and element \<open>(0, 1)\<close>
  of the proxy's output lies at \<open>4100\<close>, the caller's \<open>c\<close>.
\<close>

theorem PreTuning_proxy_output_reaches_caller_buffer:
  "PreTuning sample_allocators T_float sample_heap_adjacent 16 =
     Inr (32, \<lparr>blocks = (4096, 4) # blocks sample_heap_adjacent,
               objs = (32, sample_params_adjacent\<lparr>c := 4096\<rparr>) # objs sample_heap_adjacent\<rparr>) \<and>
   \<not> IsZero (beta sample_params_adjacent) \<and>
   (c sample_params_adjacent, 8) \<in> set (blocks sample_heap_adjacent) \<and>
   (0::int) < m sample_params_adjacent \<and> 1 < n sample_params_adjacent \<and>
   c_address T_float (sample_params_adjacent\<lparr>c := 4096\<rparr>) 0 1 = c sample_params_adjacent"
proof -
  have "\<not> IsZero (beta sample_params_adjacent)"
    by (simp add: sample_params_adjacent_def sample_beta_nonzero)
  moreover have "(c sample_params_adjacent, 8) \<in> set (blocks sample_heap_adjacent)"
    by (simp add: sample_heap_adjacent_def sample_params_adjacent_def)
  moreover have "(0::int) < m sample_params_adjacent \<and> 1 < n sample_params_adjacent \<and>
      c_address T_float (sample_params_adjacent\<lparr>c := 4096\<rparr>) 0 1 = c sample_params_adjacent"
    by (simp add: c_address_def c_index_def sample_params_adjacent_def sample_params_def)
  ultimately show ?thesis using adjacent_PreTuning by simp
qed

text \<open>
  The branch for a coefficient of which \<^verbatim>\<open>IsZero\<close> holds: \<^verbatim>\<open>PreTuning\<close> returns the
  pointer it was given and allocates nothing, and \<^verbatim>\<open>PostTuning\<close> on that pointer frees
  nothing: the memory is the same after both.
\<close>

lemma PreTuning_PostTuning_non_accumulating:
  assumes "map_of (objs h) params = Some p" and "IsZero (beta p)"
  shows "PreTuning al ty h params = Inr (params, h) \<and> PostTuning h params = Inr h"
  using assms by (simp add: PreTuning_def PostTuning_def)

lemma PreTuning_PostTuning_non_accumulating_sample:
  "PreTuning sample_allocators T_float
     \<lparr>blocks = [(1024, 8)], objs = [(16, sample_params\<lparr>beta := V_float 0x80000000\<rparr>)]\<rparr> 16 =
     Inr (16, \<lparr>blocks = [(1024, 8)], objs = [(16, sample_params\<lparr>beta := V_float 0x80000000\<rparr>)]\<rparr>) \<and>
   PostTuning \<lparr>blocks = [(1024, 8)], objs = [(16, sample_params\<lparr>beta := V_float 0x80000000\<rparr>)]\<rparr> 16 =
     Inr \<lparr>blocks = [(1024, 8)], objs = [(16, sample_params\<lparr>beta := V_float 0x80000000\<rparr>)]\<rparr>"
proof -
  have z: "IsZero (beta (sample_params\<lparr>beta := V_float 0x80000000\<rparr>))"
    by (simp add: eq_zero_def ieee_value_def)
  have o: "map_of (objs \<lparr>blocks = [(1024, 8)], objs = [(16, sample_params\<lparr>beta := V_float 0x80000000\<rparr>)]\<rparr>) 16
      = Some (sample_params\<lparr>beta := V_float 0x80000000\<rparr>)"
    by simp
  show ?thesis using PreTuning_PostTuning_non_accumulating [OF o z, of sample_allocators T_float] by simp
qed

text \<open>
  The same for a coefficient that is numerically zero, on every scalar type on which
  \<^verbatim>\<open>IsZero\<close> compares numerically.
\<close>

lemma PreTuning_PostTuning_numerically_zero:
  assumes "map_of (objs h) params = Some p" and "numerically_zero (beta p)"
    and "\<forall>x. beta p \<noteq> V_BFloat16 x"
  shows "PreTuning al ty h params = Inr (params, h) \<and> PostTuning h params = Inr h"
  using assms by (simp add: PreTuning_def PostTuning_def IsZero_numerically_zero)



text \<open>
  C5: \<^verbatim>\<open>PostTuning\<close> on the pointer that \<^verbatim>\<open>PreTuning\<close> returned gives back the memory
  as it was before \<^verbatim>\<open>PreTuning\<close>: for an accumulating operation the scratch block and
  the proxy object, both created by \<^verbatim>\<open>PreTuning\<close> and live nowhere before, are released
  and nothing else is, so the caller's output buffer and parameter object stay live; and
  a block is released exactly when \<^verbatim>\<open>PreTuning\<close> allocated one.
\<close>

theorem PostTuning_releases_scratch:
  assumes "sound_allocators al"
    and "map_of (objs h) params = Some p"
    and "PreTuning al ty h params = Inr (proxy, h')"
  shows "PostTuning h' proxy = Inr h \<and>
         (blocks h' \<noteq> blocks h \<longleftrightarrow> \<not> IsZero (beta p)) \<and>
         (\<not> IsZero (beta p) \<longrightarrow>
            (\<exists>scratch. blocks h' = (scratch, scratch_bytes ty p) # blocks h \<and>
                       objs h' = (proxy, p\<lparr>c := scratch\<rparr>) # objs h \<and>
                       scratch \<notin> fst ` set (blocks h) \<and> map_of (objs h) proxy = None \<and>
                       proxy \<noteq> params))"
proof (cases "IsZero (beta p)")
  case True
  with assms(2,3) have "proxy = params" and "h' = h"
    by (simp_all add: PreTuning_def)
  with True assms(2) show ?thesis by (simp add: PostTuning_def)
next
  case False
  note eq = assms(3) [unfolded PreTuning_accumulating [OF assms(2) False]]
  from eq obtain q where np: "new_place al h = Some q"
    by (cases "new_place al h") simp_all
  from eq np obtain scratch where
    rp: "raw_alloc_place al (h\<lparr>objs := (q, p) # objs h\<rparr>) (scratch_bytes ty p) = Some scratch"
    by (cases "raw_alloc_place al (h\<lparr>objs := (q, p) # objs h\<rparr>) (scratch_bytes ty p)") simp_all
  from eq np rp have q: "q = proxy" and
    h': "h' = \<lparr>blocks = (scratch, scratch_bytes ty p) # blocks h,
               objs = (proxy, p\<lparr>c := scratch\<rparr>) # objs h\<rparr>"
    by auto
  have po: "map_of (objs h) proxy = None"
    using assms(1) np q by (simp add: sound_allocators_def)
  then have pd: "proxy \<notin> fst ` set (objs h)" by (simp add: map_of_eq_None_iff)
  from po assms(2) have pne: "proxy \<noteq> params" by auto
  have "fresh_block (h\<lparr>objs := (q, p) # objs h\<rparr>) scratch (scratch_bytes ty p)"
    using assms(1) rp unfolding sound_allocators_def by blast
  then have "fresh_block h scratch (scratch_bytes ty p)" by (simp add: fresh_block_def)
  then have sd: "scratch \<notin> fst ` set (blocks h)" by (rule fresh_block_not_live)
  have post: "PostTuning h' proxy = Inr h"
    using False sd pd
    by (simp add: h' PostTuning_def raw_delete_def delete_GemmParams_def)
  have ne: "blocks h' \<noteq> blocks h" by (simp add: h')
  have ex: "\<exists>s. blocks h' = (s, scratch_bytes ty p) # blocks h \<and>
                       objs h' = (proxy, p\<lparr>c := s\<rparr>) # objs h \<and>
                       s \<notin> fst ` set (blocks h) \<and> map_of (objs h) proxy = None \<and>
                       proxy \<noteq> params"
    using sd po pne by (intro exI [of _ scratch]) (simp add: h')
  from post ne ex False show ?thesis by blast
qed

theorem PostTuning_releases_scratch_witness:
  "PostTuning \<lparr>blocks = (4096, 4) # blocks sample_heap,
               objs = (32, sample_params\<lparr>c := 4096\<rparr>) # objs sample_heap\<rparr> 32 = Inr sample_heap \<and>
   (4096, 4) # blocks sample_heap \<noteq> blocks sample_heap"
  using PostTuning_releases_scratch [OF sound_allocators_sample sample_params_at_16 sample_PreTuning] sample_beta_nonzero
  by simp

subsection \<open>The constructor\<close>

lemma RegisterOps_result:
  "distinct (map fst reg) \<Longrightarrow>
   RegisterOps reg xs =
     (if distinct (map fst (reg @ xs)) then Inr (reg @ xs) else Inl ConfigurationError)"
proof (induction xs arbitrary: reg)
  case Nil
  then show ?case by simp
next
  case (Cons x xs)
  obtain name op where x: "x = (name, op)" by (cases x)
  show ?case
  proof (cases "name \<in> set (map fst reg)")
    case True
    then have "\<not> distinct (map fst (reg @ x # xs))" using x by auto
    with True x show ?thesis by (simp add: RegisterOp_def)
  next
    case False
    with Cons.prems have d: "distinct (map fst (reg @ [(name, op)]))" by simp
    have "RegisterOps reg (x # xs) = RegisterOps (reg @ [(name, op)]) xs"
      using False x by (simp add: RegisterOp_def)
    also have "\<dots> = (if distinct (map fst ((reg @ [(name, op)]) @ xs))
                      then Inr ((reg @ [(name, op)]) @ xs) else Inl ConfigurationError)"
      by (rule Cons.IH [OF d])
    finally show ?thesis using x by simp
  qed
qed

lemma GemmTunableOp_result:
  "GemmTunableOp env ty AL BL vs0 =
     (if distinct (''Default'' # map fst (backend_ops env ty AL BL))
      then Inr ((''Default'', DefaultGemmOp (gemm_internal env)) # backend_ops env ty AL BL,
                validators_after env vs0)
      else Inl ConfigurationError)"
proof -
  let ?d = "[(''Default'', DefaultGemmOp (gemm_internal env))]"
  let ?roc = "GetRocBlasGemmTypeStringAndOps env ty"
  let ?hip = "GetHipBlasLtGemmTypeStringAndOps env ty AL BL"
  have r1: "RegisterOp [] ''Default'' (DefaultGemmOp (gemm_internal env)) = Inr ?d"
    by (simp add: RegisterOp_def)
  have r2: "RegisterOps ?d ?roc =
      (if distinct (map fst (?d @ ?roc)) then Inr (?d @ ?roc) else Inl ConfigurationError)"
    by (rule RegisterOps_result) simp
  let ?dr = "(''Default'', DefaultGemmOp (gemm_internal env)) # ?roc"
  show ?thesis
  proof (cases "distinct (map fst (?d @ ?roc))")
    case False
    then have nd: "\<not> distinct (''Default'' # map fst (backend_ops env ty AL BL))"
      by (auto simp: backend_ops_def)
    from False r2 have r2f: "RegisterOps ?d ?roc = Inl ConfigurationError" by simp
    have "GemmTunableOp env ty AL BL vs0 = Inl ConfigurationError"
      by (simp add: GemmTunableOp_def r1 r2f)
    with nd show ?thesis by simp
  next
    case True
    then have "distinct (map fst ?dr)" by simp
    then have r3: "RegisterOps ?dr ?hip =
        (if distinct (map fst (?dr @ ?hip)) then Inr (?dr @ ?hip)
         else Inl ConfigurationError)"
      by (rule RegisterOps_result)
    from True r2 have r2t: "RegisterOps ?d ?roc = Inr ?dr" by simp
    show ?thesis
    proof (cases "ty \<noteq> T_complex_float \<and> ty \<noteq> T_complex_double")
      case False
      with True have dd: "distinct (''Default'' # map fst (backend_ops env ty AL BL))"
        and bo: "backend_ops env ty AL BL = ?roc"
        by (auto simp: backend_ops_def)
      have "GemmTunableOp env ty AL BL vs0 = Inr (?dr, validators_after env vs0)"
        using False by (auto simp: GemmTunableOp_def r1 r2t validators_after_def)
      with dd bo show ?thesis by simp
    next
      case c: True
      then have bo: "backend_ops env ty AL BL = ?roc @ ?hip" by (simp add: backend_ops_def)
      show ?thesis
      proof (cases "distinct (map fst (?dr @ ?hip))")
        case True
        with bo have dd: "distinct (''Default'' # map fst (backend_ops env ty AL BL))"
          by simp
        from True r3 have r3t: "RegisterOps ?dr ?hip = Inr (?dr @ ?hip)"
          by simp
        have "GemmTunableOp env ty AL BL vs0 = Inr (?dr @ ?hip, validators_after env vs0)"
          using c by (simp add: GemmTunableOp_def r1 r2t r3t validators_after_def)
        with dd bo show ?thesis by simp
      next
        case False
        with bo have nd: "\<not> distinct (''Default'' # map fst (backend_ops env ty AL BL))"
          by simp
        from False r3 have r3f: "RegisterOps ?dr ?hip = Inl ConfigurationError"
          by simp
        have "GemmTunableOp env ty AL BL vs0 = Inl ConfigurationError"
          using c by (simp add: GemmTunableOp_def r1 r2t r3f)
        with nd show ?thesis by simp
      qed
    qed
  qed
qed

lemma sample_GemmTunableOp:
  "GemmTunableOp sample_rocm T_float False True vs0 =
     Inr ([(''Default'', DefaultGemmOp (gemm_internal sample_rocm)),
           (''Gemm_Rocblas_1'', \<lambda>p dev. (OK, c p # dev)),
           (''Gemm_Hipblaslt_NT_1'', \<lambda>p dev. (FAIL, dev))],
          validators_after sample_rocm vs0)"
  by (simp add: GemmTunableOp_result backend_ops_def sample_rocm_def sample_BlasOpToString_def)

text \<open>
  C7: the constructor either stops with the configuration error of a duplicate candidate
  name, or it leaves a registry whose first entry is \<open>Default\<close>, bound to
  \<^verbatim>\<open>DefaultGemmOp\<close>, followed by the candidates of the backends, none of which is named
  \<open>Default\<close>.
\<close>

theorem GemmTunableOp_registers_Default_first:
  "GemmTunableOp env ty AL BL vs0 = Inl ConfigurationError \<or>
   (\<exists>ops vs. GemmTunableOp env ty AL BL vs0 = Inr (ops, vs) \<and>
      ops = (''Default'', DefaultGemmOp (gemm_internal env)) # backend_ops env ty AL BL \<and>
      hd (map fst ops) = ''Default'' \<and> ''Default'' \<notin> set (map fst (tl ops)))"
  by (simp add: GemmTunableOp_result)

theorem GemmTunableOp_registers_Default_first_witness:
  "GemmTunableOp sample_rocm T_float False True sample_validators =
     Inr ([(''Default'', DefaultGemmOp (gemm_internal sample_rocm)),
           (''Gemm_Rocblas_1'', \<lambda>p dev. (OK, c p # dev)),
           (''Gemm_Hipblaslt_NT_1'', \<lambda>p dev. (FAIL, dev))],
          validators_after sample_rocm sample_validators)"
  using GemmTunableOp_registers_Default_first [of sample_rocm T_float False True sample_validators]
  by (simp add: sample_GemmTunableOp)

lemma validators_after_apply:
  "validators_after env vs0 key =
     (case vs0 key of
        Some e \<Rightarrow> Some e
      | None \<Rightarrow>
          if key = ''ROCM_VERSION''
          then Some (version_producer (rocm_version env), version_predicate (rocm_version env))
          else if key = ''ROCBLAS_VERSION''
          then Some (version_producer (rocblas_version env), version_predicate (rocblas_version env))
          else if key = ''HIPBLASLT_VERSION''
          then Some (version_producer (hipblaslt_version env),
                     version_predicate (hipblaslt_version env))
          else None)"
  by (simp add: validators_after_def register_version_def RegisterValidator_def
      split: option.split)

lemma GemmTunableOp_validators:
  "GemmTunableOp env ty AL BL vs0 = Inr (ops, vs) \<Longrightarrow> vs = validators_after env vs0"
  by (simp add: GemmTunableOp_result split: if_splits)

text \<open>
  C8: a validator entry that exists when the constructor starts is the same afterwards,
  whatever its key; the constructor adds an entry only for the three version keys, and
  for each of them only when the key had no entry.
\<close>

theorem GemmTunableOp_keeps_registered_validators:
  assumes "GemmTunableOp env ty AL BL vs0 = Inr (ops, vs)"
  shows "(\<forall>key e. vs0 key = Some e \<longrightarrow> vs key = Some e) \<and>
         (\<forall>key. vs0 key = None \<and>
                key \<notin> {''ROCM_VERSION'', ''ROCBLAS_VERSION'', ''HIPBLASLT_VERSION''} \<longrightarrow>
                vs key = None) \<and>
         (vs0 ''ROCM_VERSION'' = None \<longrightarrow>
            vs ''ROCM_VERSION'' =
              Some (version_producer (rocm_version env), version_predicate (rocm_version env))) \<and>
         (vs0 ''ROCBLAS_VERSION'' = None \<longrightarrow>
            vs ''ROCBLAS_VERSION'' =
              Some (version_producer (rocblas_version env),
                    version_predicate (rocblas_version env))) \<and>
         (vs0 ''HIPBLASLT_VERSION'' = None \<longrightarrow>
            vs ''HIPBLASLT_VERSION'' =
              Some (version_producer (hipblaslt_version env),
                    version_predicate (hipblaslt_version env)))"
  unfolding GemmTunableOp_validators [OF assms]
  by (simp add: validators_after_apply)

theorem GemmTunableOp_keeps_registered_validators_witness:
  "validators_after sample_rocm sample_validators ''ROCM_VERSION'' =
     Some (version_producer ''5.7.1'', version_predicate ''5.7.1'') \<and>
   validators_after sample_rocm sample_validators ''ROCBLAS_VERSION'' =
     Some (version_producer ''4.0.0-88df9726'', version_predicate ''4.0.0-88df9726'') \<and>
   validators_after sample_rocm sample_validators ''OTHER'' = None"
proof -
  have x: "sample_validators ''ROCM_VERSION'' =
      Some (version_producer ''5.7.1'', version_predicate ''5.7.1'')"
    and y: "sample_validators ''ROCBLAS_VERSION'' = None"
    and z: "sample_validators ''OTHER'' = None"
    by (simp_all add: sample_validators_def)
  have v: "rocblas_version sample_rocm = ''4.0.0-88df9726''"
    by (simp add: rocblas_version_def sample_rocm_def)
  from GemmTunableOp_keeps_registered_validators [OF sample_GemmTunableOp, of sample_validators] x y z v
  show ?thesis by simp
qed

text \<open>
  C9: an entry that the constructor has added belongs to one of the three version keys;
  its value producer returns the version string captured at registration on every call,
  and its predicate returns \<open>OK\<close> for a stored value equal to that string and \<open>FAIL\<close>
  for any other.
\<close>

theorem GemmTunableOp_version_validators:
  assumes "GemmTunableOp env ty AL BL vs0 = Inr (ops, vs)"
    and "vs0 key = None" and "vs key = Some (gf, vf)"
  shows "\<exists>v. (key = ''ROCM_VERSION'' \<and> v = rocm_version env \<or>
              key = ''ROCBLAS_VERSION'' \<and> v = rocblas_version env \<or>
              key = ''HIPBLASLT_VERSION'' \<and> v = hipblaslt_version env) \<and>
             (\<forall>u. gf u = v) \<and>
             (\<forall>stored. vf stored = (if stored = v then OK else FAIL)) \<and>
             (\<forall>stored. vf stored = OK \<longleftrightarrow> stored = v)"
proof -
  from assms(3) have e: "validators_after env vs0 key = Some (gf, vf)"
    unfolding GemmTunableOp_validators [OF assms(1)] .
  have p: "\<forall>u. version_producer v u = v" for v
    by (simp add: version_producer_def)
  have q: "(\<forall>stored. version_predicate v stored = (if stored = v then OK else FAIL)) \<and>
           (\<forall>stored. version_predicate v stored = OK \<longleftrightarrow> stored = v)" for v
    by (auto simp: version_predicate_def)
  from e assms(2) consider
      "key = ''ROCM_VERSION''" "gf = version_producer (rocm_version env)"
        "vf = version_predicate (rocm_version env)"
    | "key = ''ROCBLAS_VERSION''" "gf = version_producer (rocblas_version env)"
        "vf = version_predicate (rocblas_version env)"
    | "key = ''HIPBLASLT_VERSION''" "gf = version_producer (hipblaslt_version env)"
        "vf = version_predicate (hipblaslt_version env)"
    by (auto simp: validators_after_apply split: if_splits)
  then show ?thesis
  proof cases
    case 1
    with p q show ?thesis by (intro exI [of _ "rocm_version env"]) blast
  next
    case 2
    with p q show ?thesis by (intro exI [of _ "rocblas_version env"]) blast
  next
    case 3
    with p q show ?thesis by (intro exI [of _ "hipblaslt_version env"]) blast
  qed
qed

theorem GemmTunableOp_version_validators_witness:
  "validators_after sample_rocm sample_validators ''HIPBLASLT_VERSION'' =
     Some (version_producer ''0.6.0-6ab220ce'', version_predicate ''0.6.0-6ab220ce'') \<and>
   version_producer ''0.6.0-6ab220ce'' () = ''0.6.0-6ab220ce'' \<and>
   version_predicate ''0.6.0-6ab220ce'' ''0.6.0-6ab220ce'' = OK \<and>
   version_predicate ''0.6.0-6ab220ce'' ''0.7.0-6ab220ce'' = FAIL"
proof -
  have n: "sample_validators ''HIPBLASLT_VERSION'' = None"
    by (simp add: sample_validators_def)
  have v: "hipblaslt_version sample_rocm = ''0.6.0-6ab220ce''"
    by (simp add: hipblaslt_version_def sample_rocm_def)
  have e: "validators_after sample_rocm sample_validators ''HIPBLASLT_VERSION'' =
     Some (version_producer ''0.6.0-6ab220ce'', version_predicate ''0.6.0-6ab220ce'')"
    by (simp add: validators_after_apply n v)
  from GemmTunableOp_version_validators [OF sample_GemmTunableOp n e] e
  show ?thesis by (auto simp: v)
qed

end
